theory Spec2Isabelle
  imports Main
begin

section \<open>Log levels\<close>

text \<open>
  \<^verbatim>\<open>type LogLevel int\<close> with the constants \<^verbatim>\<open>ERROR .. FINE = iota\<close>. Go's \<^verbatim>\<open>int\<close> is a signed
  machine integer of 32 or 64 bits. The package never does arithmetic on a level: it
  stores it, compares it with the signed order and prints it in decimal. So a level is
  modelled as an \<^typ>\<open>int\<close>; whatever holds for every \<^typ>\<open>int\<close> holds for the values of
  either width.
\<close>

type_synonym LogLevel = int

definition ERROR :: LogLevel where "ERROR = 0"
definition WARN :: LogLevel where "WARN = 1"
definition INFO :: LogLevel where "INFO = 2"
definition DEBUG :: LogLevel where "DEBUG = 3"
definition FINE :: LogLevel where "FINE = 4"

section \<open>The host formatting routine\<close>

text \<open>
  \<^verbatim>\<open>fmt.Sprintf\<close> belongs to Go's standard library, not to the package. The model below
  covers the fragment the package itself uses, and a little around it: templates whose
  verbs are the plain \<^verbatim>\<open>%d\<close>, \<^verbatim>\<open>%s\<close>, \<^verbatim>\<open>%v\<close> and \<^verbatim>\<open>%%\<close> (no flag, width, precision or
  argument index), with operands that are integers or strings. It follows
  \<^verbatim>\<open>doPrintf\<close>: text is copied, a verb consumes one operand, an operand of the wrong kind
  is rendered as \<^verbatim>\<open>%!verb(type=value)\<close>, a verb without operand as \<^verbatim>\<open>%!verb(MISSING)\<close>, a
  template ending in \<^verbatim>\<open>%\<close> as \<^verbatim>\<open>%!(NOVERB)\<close>, and operands left over are listed in a
  final \<^verbatim>\<open>%!(EXTRA ...)\<close>.
\<close>

datatype arg = IntArg int | StringArg string

definition digit :: "nat \<Rightarrow> char" where
  "digit d = ''0123456789'' ! d"

fun decimal :: "nat \<Rightarrow> string" where
  "decimal n = (if n < 10 then [digit n] else decimal (n div 10) @ [digit (n mod 10)])"

declare decimal.simps [simp del]

text \<open>The verb \<^verbatim>\<open>%d\<close> on a signed integer: a minus sign, then the digits of the magnitude.\<close>

definition fmt_d :: "int \<Rightarrow> string" where
  "fmt_d i = (if i < 0 then CHR ''-'' # decimal (nat (- i)) else decimal (nat i))"

fun typeName :: "arg \<Rightarrow> string" where
  "typeName (IntArg i) = ''int''"
| "typeName (StringArg s) = ''string''"

fun defaultFormat :: "arg \<Rightarrow> string" where
  "defaultFormat (IntArg i) = fmt_d i"
| "defaultFormat (StringArg s) = s"

definition badVerb :: "char \<Rightarrow> arg \<Rightarrow> string" where
  "badVerb verb a = ''%!'' @ [verb] @ ''('' @ typeName a @ ''='' @ defaultFormat a @ '')''"

fun printArg :: "arg \<Rightarrow> char \<Rightarrow> string" where
  "printArg (IntArg i) verb =
     (if verb = CHR ''v'' \<or> verb = CHR ''d'' then fmt_d i else badVerb verb (IntArg i))"
| "printArg (StringArg s) verb =
     (if verb = CHR ''v'' \<or> verb = CHR ''s'' then s else badVerb verb (StringArg s))"

fun extraList :: "arg list \<Rightarrow> string" where
  "extraList [] = []"
| "extraList [a] = typeName a @ ''='' @ printArg a (CHR ''v'')"
| "extraList (a # b # bs) = typeName a @ ''='' @ printArg a (CHR ''v'') @ '', '' @ extraList (b # bs)"

fun extraArgs :: "arg list \<Rightarrow> string" where
  "extraArgs [] = []"
| "extraArgs (a # as) = ''%!(EXTRA '' @ extraList (a # as) @ '')''"

fun doPrintf :: "string \<Rightarrow> arg list \<Rightarrow> string" where
  "doPrintf [] a = extraArgs a"
| "doPrintf [c] a = (if c = CHR ''%'' then ''%!(NOVERB)'' @ extraArgs a else c # extraArgs a)"
| "doPrintf (c # verb # rest) a =
     (if c = CHR ''%'' then
        (if verb = CHR ''%'' then CHR ''%'' # doPrintf rest a
         else (case a of
                 [] \<Rightarrow> ''%!'' @ [verb] @ ''(MISSING)'' @ doPrintf rest []
               | x # xs \<Rightarrow> printArg x verb @ doPrintf rest xs))
      else c # doPrintf (verb # rest) a)"

definition Sprintf :: "string \<Rightarrow> arg list \<Rightarrow> string" where
  "Sprintf format a = doPrintf format a"

section \<open>Stringification of a level\<close>

definition LogLevel_String :: "LogLevel \<Rightarrow> string" where
  "LogLevel_String l =
     (if l = ERROR then ''ERROR''
      else if l = WARN then ''WARN''
      else if l = INFO then ''INFO''
      else if l = DEBUG then ''DEBUG''
      else if l = FINE then ''FINE''
      else Sprintf ''UNKNOWN_LOG_LEVEL(%d)'' [IntArg l])"

section \<open>The world the package runs in\<close>

text \<open>
  A sink is named by a handle. The world holds the package's one global variable and
  what the calls do to the sinks:
  \<^item> \<open>globalLogLevel\<close>: the variable of that name;
  \<^item> \<open>writes\<close>: for every sink, the byte slices handed to its \<^verbatim>\<open>Write\<close>, one entry per
    call, oldest first;
  \<^item> \<open>write_err\<close>: the error the sink's \<^verbatim>\<open>Write\<close> returns (\<open>None\<close> for \<^verbatim>\<open>nil\<close>);
  \<^item> \<open>stamp\<close>: the header \<^verbatim>\<open>log\<close> renders from the clock for a prefix and non-zero flags
    (date, time, file and line), which lies outside the package.
\<close>

type_synonym writer = nat

datatype error = Err string

record world =
  globalLogLevel :: LogLevel
  writes :: "writer \<Rightarrow> string list"
  write_err :: "writer \<Rightarrow> error option"
  stamp :: "string \<Rightarrow> nat \<Rightarrow> string"

definition os_Stdout :: writer where
  "os_Stdout = 1"

text \<open>\<^verbatim>\<open>var globalLogLevel LogLevel = INFO\<close>: the world when the process starts.\<close>

definition process_start :: "(writer \<Rightarrow> error option) \<Rightarrow> (string \<Rightarrow> nat \<Rightarrow> string) \<Rightarrow> world" where
  "process_start errs st =
     \<lparr>globalLogLevel = INFO, writes = (\<lambda>f. []), write_err = errs, stamp = st\<rparr>"

text \<open>
  Both accessors take \<^verbatim>\<open>globalLogLevelMutex\<close> and release it by \<^verbatim>\<open>defer\<close> before they
  return; between the two they touch the variable once. In the sequential model a call
  is the assignment or the read alone.
\<close>

definition SetGlobalMinLevel :: "LogLevel \<Rightarrow> world \<Rightarrow> world" where
  "SetGlobalMinLevel level w = w\<lparr>globalLogLevel := level\<rparr>"

definition GetGlobalMinLevel :: "world \<Rightarrow> LogLevel" where
  "GetGlobalMinLevel w = globalLogLevel w"

section \<open>The standard library's logger\<close>

text \<open>
  \<^verbatim>\<open>log.Logger\<close>, as far as the package drives it: \<^verbatim>\<open>log.New\<close> stores the sink, the prefix
  and the flags; \<^verbatim>\<open>Printf\<close> formats and calls \<^verbatim>\<open>Output\<close>, dropping the error \<^verbatim>\<open>Output\<close>
  returns; \<^verbatim>\<open>Output\<close> writes the header and the message, adds a newline unless the
  buffer already ends in one, and hands the whole buffer to the sink in one \<^verbatim>\<open>Write\<close>.
\<close>

record log_Logger =
  log_prefix :: string
  log_flag :: nat
  log_out :: writer

definition LstdFlags :: nat where
  "LstdFlags = 3"

definition newline :: char where
  "newline = CHR 0x0A"

definition log_New :: "writer \<Rightarrow> string \<Rightarrow> nat \<Rightarrow> log_Logger" where
  "log_New out' prefix flag = \<lparr>log_prefix = prefix, log_flag = flag, log_out = out'\<rparr>"

definition formatHeader :: "world \<Rightarrow> string \<Rightarrow> nat \<Rightarrow> string" where
  "formatHeader w prefix flag = (if flag = 0 then prefix else stamp w prefix flag)"

definition Write :: "writer \<Rightarrow> string \<Rightarrow> world \<Rightarrow> error option \<times> world" where
  "Write f p w = (write_err w f, w\<lparr>writes := (writes w)(f := writes w f @ [p])\<rparr>)"

definition log_Output :: "log_Logger \<Rightarrow> string \<Rightarrow> world \<Rightarrow> error option \<times> world" where
  "log_Output lg s w =
     (let buf = formatHeader w (log_prefix lg) (log_flag lg) @ s;
          buf = (if buf = [] \<or> last buf \<noteq> newline then buf @ [newline] else buf)
      in Write (log_out lg) buf w)"

definition log_Printf :: "log_Logger \<Rightarrow> string \<Rightarrow> arg list \<Rightarrow> world \<Rightarrow> world" where
  "log_Printf lg format v w = snd (log_Output lg (Sprintf format v) w)"

section \<open>The Logger\<close>

text \<open>
  \<^verbatim>\<open>internalLogger\<close> is a pointer in the source; every constructor sets it to the result
  of \<^verbatim>\<open>log.New\<close>, which is never \<^verbatim>\<open>nil\<close>, so the record holds the logger it points to.
  A method has a pointer receiver: it takes the Logger and returns it with the world.
\<close>

record Logger =
  internalLogger :: log_Logger
  component :: string

text \<open>\<^verbatim>\<open>output *os.File\<close> may be \<^verbatim>\<open>nil\<close>: an optional handle.\<close>

definition NewLogger :: "string \<Rightarrow> writer option \<Rightarrow> world \<Rightarrow> Logger \<times> world" where
  "NewLogger component' output w =
     (let output' = (case output of None \<Rightarrow> os_Stdout | Some f \<Rightarrow> f)
      in (\<lparr>internalLogger = log_New output' [] LstdFlags, component = component'\<rparr>, w))"

text \<open>The constructor of the package's tests: any sink, no flags.\<close>

definition newTestLogger :: "writer \<Rightarrow> string \<Rightarrow> world \<Rightarrow> Logger \<times> world" where
  "newTestLogger output component' w =
     (\<lparr>internalLogger = log_New output [] 0, component = component'\<rparr>, w)"

text \<open>
  \<^verbatim>\<open>logf\<close>. The two templates of the prefix and the template of \<^verbatim>\<open>Printf\<close> are fixed and lie
  in the modelled fragment of \<^verbatim>\<open>fmt\<close>. The caller's template and operands are arbitrary:
  the formatter applied to them is the parameter \<open>sprintf\<close>, so that a statement about
  \<open>logf\<close> holds for whatever \<^verbatim>\<open>fmt.Sprintf\<close> does with them.
\<close>

definition logf ::
  "(string \<Rightarrow> 'a list \<Rightarrow> string) \<Rightarrow> Logger \<Rightarrow> LogLevel \<Rightarrow> string \<Rightarrow> 'a list \<Rightarrow> world \<Rightarrow> Logger \<times> world" where
  "logf sprintf l level msg params w =
     (if level > GetGlobalMinLevel w then (l, w)
      else
        (let prefix = Sprintf ''[%s]'' [StringArg (LogLevel_String level)];
             prefix = (if component l \<noteq> [] then Sprintf ''%s[%s]'' [StringArg prefix, StringArg (component l)]
                       else prefix)
         in (l, log_Printf (internalLogger l) ''%s %s'' [StringArg prefix, StringArg (sprintf msg params)] w)))"

definition Error :: "(string \<Rightarrow> 'a list \<Rightarrow> string) \<Rightarrow> Logger \<Rightarrow> string \<Rightarrow> 'a list \<Rightarrow> world \<Rightarrow> Logger \<times> world" where
  "Error sprintf l msg params w = logf sprintf l ERROR msg params w"

definition Warn :: "(string \<Rightarrow> 'a list \<Rightarrow> string) \<Rightarrow> Logger \<Rightarrow> string \<Rightarrow> 'a list \<Rightarrow> world \<Rightarrow> Logger \<times> world" where
  "Warn sprintf l msg params w = logf sprintf l WARN msg params w"

definition Info :: "(string \<Rightarrow> 'a list \<Rightarrow> string) \<Rightarrow> Logger \<Rightarrow> string \<Rightarrow> 'a list \<Rightarrow> world \<Rightarrow> Logger \<times> world" where
  "Info sprintf l msg params w = logf sprintf l INFO msg params w"

definition Debug :: "(string \<Rightarrow> 'a list \<Rightarrow> string) \<Rightarrow> Logger \<Rightarrow> string \<Rightarrow> 'a list \<Rightarrow> world \<Rightarrow> Logger \<times> world" where
  "Debug sprintf l msg params w = logf sprintf l DEBUG msg params w"

definition Fine :: "(string \<Rightarrow> 'a list \<Rightarrow> string) \<Rightarrow> Logger \<Rightarrow> string \<Rightarrow> 'a list \<Rightarrow> world \<Rightarrow> Logger \<times> world" where
  "Fine sprintf l msg params w = logf sprintf l FINE msg params w"

section \<open>Reading a decimal numeral, and concrete inputs\<close>

text \<open>The value of a decimal numeral with an optional minus sign, to say what \<open>fmt_d\<close> prints.\<close>

definition digit_value :: "char \<Rightarrow> nat" where
  "digit_value c = of_char c - 48"

definition decimal_value :: "string \<Rightarrow> nat" where
  "decimal_value s = foldl (\<lambda>a c. 10 * a + digit_value c) 0 s"

fun numeral_value :: "string \<Rightarrow> int" where
  "numeral_value [] = 0"
| "numeral_value (c # cs) =
     (if c = CHR ''-'' then - int (decimal_value cs) else int (decimal_value (c # cs)))"

text \<open>
  Worlds and loggers for the closed examples: a process that has just started, with
  sinks that accept every write or refuse every write, and the clock at a fixed moment.
\<close>

definition fresh_world :: world where
  "fresh_world = process_start (\<lambda>f. None) (\<lambda>prefix flag. prefix @ ''2009/11/10 23:00:00 '')"

definition broken_world :: world where
  "broken_world = process_start (\<lambda>f. Some (Err ''file already closed'')) (\<lambda>prefix flag. prefix @ ''2009/11/10 23:00:00 '')"

definition buffer :: writer where
  "buffer = 7"

section \<open>Basic facts\<close>

lemmas level_defs = ERROR_def WARN_def INFO_def DEBUG_def FINE_def

text \<open>The package's own templates, evaluated by the model of \<open>fmt\<close>.\<close>

lemma Sprintf_unknown: "Sprintf ''UNKNOWN_LOG_LEVEL(%d)'' [IntArg l] = ''UNKNOWN_LOG_LEVEL('' @ fmt_d l @ '')''"
  by (simp add: Sprintf_def)

lemma Sprintf_level: "Sprintf ''[%s]'' [StringArg s] = ''['' @ s @ '']''"
  by (simp add: Sprintf_def)

lemma Sprintf_component: "Sprintf ''%s[%s]'' [StringArg p, StringArg c] = p @ ''['' @ c @ '']''"
  by (simp add: Sprintf_def)

lemma Sprintf_line: "Sprintf ''%s %s'' [StringArg p, StringArg b] = p @ '' '' @ b"
  by (simp add: Sprintf_def)

lemma Write_changes: "snd (Write f p w) \<noteq> w"
proof
  assume "snd (Write f p w) = w"
  then have "writes (snd (Write f p w)) f = writes w f" by simp
  then show False by (simp add: Write_def)
qed

lemma logf_suppressed:
  "GetGlobalMinLevel w < level \<Longrightarrow> logf sprintf l level msg params w = (l, w)"
  by (simp add: logf_def)

lemma logf_emitted:
  "level \<le> GetGlobalMinLevel w \<Longrightarrow>
   logf sprintf l level msg params w =
     (l, snd (Write (log_out (internalLogger l))
           (formatHeader w (log_prefix (internalLogger l)) (log_flag (internalLogger l))
              @ ''['' @ LogLevel_String level @ '']''
              @ (if component l = [] then [] else ''['' @ component l @ '']'')
              @ '' '' @ sprintf msg params
              @ (if sprintf msg params \<noteq> [] \<and> last (sprintf msg params) = newline then [] else [newline]))
           w))"
  by (simp add: logf_def log_Printf_def log_Output_def Let_def Sprintf_level Sprintf_component Sprintf_line newline_def)

lemma digit_value_digit: "d < 10 \<Longrightarrow> digit_value (digit d) = d"
proof -
  assume "d < 10"
  then have "d \<in> {0, 1, 2, 3, 4, 5, 6, 7, 8, 9}" by auto
  then show ?thesis by (auto simp: digit_value_def digit_def)
qed

lemma decimal_value_snoc: "decimal_value (s @ [c]) = 10 * decimal_value s + digit_value c"
  by (simp add: decimal_value_def)

lemma decimal_value_decimal: "decimal_value (decimal n) = n"
proof (induction n rule: decimal.induct)
  case (1 n)
  show ?case
  proof (cases "n < 10")
    case True
    then show ?thesis
      by (subst decimal.simps) (simp add: decimal_value_def digit_value_digit)
  next
    case False
    with 1 have "decimal_value (decimal (n div 10)) = n div 10" by simp
    with False show ?thesis
      by (subst decimal.simps) (simp add: decimal_value_snoc digit_value_digit)
  qed
qed

lemma decimal_not_Nil: "decimal n \<noteq> []"
  by (subst decimal.simps) simp

lemma hd_decimal_not_minus: "hd (decimal n) \<noteq> CHR ''-''"
proof (induction n rule: decimal.induct)
  case (1 n)
  show ?case
  proof (cases "n < 10")
    case True
    then have "n \<in> {0, 1, 2, 3, 4, 5, 6, 7, 8, 9}" by auto
    then show ?thesis
      by (subst decimal.simps) (auto simp: digit_def)
  next
    case False
    with 1 have "hd (decimal (n div 10)) \<noteq> CHR ''-''" by simp
    with False show ?thesis
      by (subst decimal.simps) (simp add: decimal_not_Nil)
  qed
qed

lemma numeral_value_fmt_d: "numeral_value (fmt_d i) = i"
proof (cases "i < 0")
  case True
  then show ?thesis by (simp add: fmt_d_def decimal_value_decimal)
next
  case False
  obtain c cs where d: "decimal (nat i) = c # cs"
    using decimal_not_Nil [of "nat i"] by (cases "decimal (nat i)") auto
  have "c \<noteq> CHR ''-''" using hd_decimal_not_minus [of "nat i"] d by simp
  moreover have "decimal_value (c # cs) = nat i" using decimal_value_decimal [of "nat i"] d by simp
  ultimately show ?thesis using False d by (simp add: fmt_d_def)
qed

text \<open>What a call of \<open>logf\<close> keeps, and when it writes.\<close>

lemma logf_fst: "fst (logf sprintf l level msg params w) = l"
  by (simp add: logf_def Let_def)

lemma Write_keeps_level: "globalLogLevel (snd (Write f p w)) = globalLogLevel w"
  by (simp add: Write_def)

lemma logf_keeps_level: "GetGlobalMinLevel (snd (logf sprintf l level msg params w)) = GetGlobalMinLevel w"
  by (cases "level \<le> GetGlobalMinLevel w")
     (simp_all add: logf_emitted logf_suppressed, simp add: GetGlobalMinLevel_def Write_keeps_level)

lemma logf_written_iff:
  "(\<exists>line. snd (logf sprintf l level msg params w) = snd (Write (log_out (internalLogger l)) line w))
     = (level \<le> GetGlobalMinLevel w)"
proof (cases "level \<le> GetGlobalMinLevel w")
  case True
  then show ?thesis by (auto simp: logf_emitted)
next
  case False
  then have "logf sprintf l level msg params w = (l, w)" by (simp add: logf_suppressed)
  with False show ?thesis using Write_changes [of "log_out (internalLogger l)" _ w] by (auto dest: sym)
qed

lemma logf_unchanged_iff:
  "(logf sprintf l level msg params w = (l, w)) = (GetGlobalMinLevel w < level)"
proof (cases "level \<le> GetGlobalMinLevel w")
  case True
  then show ?thesis using Write_changes by (auto simp: logf_emitted)
next
  case False
  then show ?thesis by (simp add: logf_suppressed)
qed

lemmas method_defs = Error_def Warn_def Info_def Debug_def Fine_def

lemma logf_write_err:
  "logf sprintf l level msg params (w\<lparr>write_err := e\<rparr>)
     = (l, (snd (logf sprintf l level msg params w))\<lparr>write_err := e\<rparr>)"
  by (simp add: logf_def log_Printf_def log_Output_def Write_def formatHeader_def Let_def GetGlobalMinLevel_def)

lemma logf_formatter:
  "sprintf msg params = sprintf' msg' params' \<Longrightarrow>
   logf sprintf l level msg params w = logf sprintf' l level msg' params' w"
  by (simp add: logf_def)

lemma log_Output_error: "fst (log_Output lg s w) = write_err w (log_out lg)"
  by (simp add: log_Output_def Write_def Let_def)

text \<open>The constructors, the accessors and the worlds of the examples.\<close>

lemma test_logger: "fst (newTestLogger out' c w) = \<lparr>internalLogger = \<lparr>log_prefix = [], log_flag = 0, log_out = out'\<rparr>, component = c\<rparr>"
  by (simp add: newTestLogger_def log_New_def)

lemma GetGlobalMinLevel_Set: "GetGlobalMinLevel (SetGlobalMinLevel v w) = v"
  by (simp add: GetGlobalMinLevel_def SetGlobalMinLevel_def)

lemma GetGlobalMinLevel_start: "GetGlobalMinLevel (process_start errs st) = INFO"
  by (simp add: GetGlobalMinLevel_def process_start_def)

lemma fresh_level: "GetGlobalMinLevel fresh_world = INFO"
  by (simp add: fresh_world_def GetGlobalMinLevel_start)

lemma writes_Write: "writes (snd (Write f p w)) f = writes w f @ [p]"
  by (simp add: Write_def)

lemma writes_fresh: "writes fresh_world f = []"
  by (simp add: fresh_world_def process_start_def)

lemma formatHeader_no_flags: "formatHeader w p 0 = p"
  by (simp add: formatHeader_def)

lemma formatHeader_std: "formatHeader w p LstdFlags = stamp w p LstdFlags"
  by (simp add: formatHeader_def LstdFlags_def)

section \<open>Claims\<close>

text \<open>
  Claim C1. At whatever threshold the global variable holds when the call is made, each
  of \<open>Error\<close>, \<open>Warn\<close>, \<open>Info\<close>, \<open>Debug\<close> and \<open>Fine\<close> (ranks 0 to 4) hands one line to the
  Logger's sink if and only if its rank is at most the threshold, and leaves Logger and
  world as they were if and only if its rank is above the threshold.
\<close>

theorem emitted_iff_rank_le:
  "ERROR = 0 \<and> WARN = 1 \<and> INFO = 2 \<and> DEBUG = 3 \<and> FINE = 4
   \<and> ((\<exists>line. snd (Error sprintf l msg params w) = snd (Write (log_out (internalLogger l)) line w)) = (ERROR \<le> GetGlobalMinLevel w))
   \<and> ((\<exists>line. snd (Warn sprintf l msg params w) = snd (Write (log_out (internalLogger l)) line w)) = (WARN \<le> GetGlobalMinLevel w))
   \<and> ((\<exists>line. snd (Info sprintf l msg params w) = snd (Write (log_out (internalLogger l)) line w)) = (INFO \<le> GetGlobalMinLevel w))
   \<and> ((\<exists>line. snd (Debug sprintf l msg params w) = snd (Write (log_out (internalLogger l)) line w)) = (DEBUG \<le> GetGlobalMinLevel w))
   \<and> ((\<exists>line. snd (Fine sprintf l msg params w) = snd (Write (log_out (internalLogger l)) line w)) = (FINE \<le> GetGlobalMinLevel w))
   \<and> ((Error sprintf l msg params w = (l, w)) = (GetGlobalMinLevel w < ERROR))
   \<and> ((Warn sprintf l msg params w = (l, w)) = (GetGlobalMinLevel w < WARN))
   \<and> ((Info sprintf l msg params w = (l, w)) = (GetGlobalMinLevel w < INFO))
   \<and> ((Debug sprintf l msg params w = (l, w)) = (GetGlobalMinLevel w < DEBUG))
   \<and> ((Fine sprintf l msg params w = (l, w)) = (GetGlobalMinLevel w < FINE))"
  unfolding method_defs
  by (simp only: logf_written_iff logf_unchanged_iff) (simp add: level_defs)

text \<open>
  Claim C2, as amended. For an emitted message, the sink receives in one write: the
  header of the standard logger (empty for a Logger without flags, the stamp under the
  default constructor), the level in brackets, the component in brackets unless it is
  empty, one space, the interpolated message, and then a newline only when the
  interpolated message is empty or does not already end in a newline.
\<close>

theorem emitted_bytes:
  fixes sprintf :: "string \<Rightarrow> 'a list \<Rightarrow> string" and l :: Logger and msg :: string
    and params :: "'a list" and w :: world
  defines "body \<equiv> sprintf msg params"
  defines "line \<equiv> \<lambda>LEVEL. formatHeader w (log_prefix (internalLogger l)) (log_flag (internalLogger l))
              @ ''['' @ LEVEL @ '']''
              @ (if component l = [] then [] else ''['' @ component l @ '']'')
              @ '' '' @ body
              @ (if body \<noteq> [] \<and> last body = newline then [] else [newline])"
  shows "(ERROR \<le> GetGlobalMinLevel w \<longrightarrow> snd (Error sprintf l msg params w) = snd (Write (log_out (internalLogger l)) (line ''ERROR'') w))
   \<and> (WARN \<le> GetGlobalMinLevel w \<longrightarrow> snd (Warn sprintf l msg params w) = snd (Write (log_out (internalLogger l)) (line ''WARN'') w))
   \<and> (INFO \<le> GetGlobalMinLevel w \<longrightarrow> snd (Info sprintf l msg params w) = snd (Write (log_out (internalLogger l)) (line ''INFO'') w))
   \<and> (DEBUG \<le> GetGlobalMinLevel w \<longrightarrow> snd (Debug sprintf l msg params w) = snd (Write (log_out (internalLogger l)) (line ''DEBUG'') w))
   \<and> (FINE \<le> GetGlobalMinLevel w \<longrightarrow> snd (Fine sprintf l msg params w) = snd (Write (log_out (internalLogger l)) (line ''FINE'') w))
   \<and> formatHeader w (log_prefix (internalLogger (fst (newTestLogger out' c w')))) (log_flag (internalLogger (fst (newTestLogger out' c w')))) = []
   \<and> formatHeader w (log_prefix (internalLogger (fst (NewLogger c output w')))) (log_flag (internalLogger (fst (NewLogger c output w'))))
       = stamp w [] LstdFlags"
proof -
  have names: "LogLevel_String ERROR = ''ERROR''" "LogLevel_String WARN = ''WARN''"
    "LogLevel_String INFO = ''INFO''" "LogLevel_String DEBUG = ''DEBUG''" "LogLevel_String FINE = ''FINE''"
    by (simp_all add: LogLevel_String_def level_defs)
  show ?thesis
    unfolding line_def body_def method_defs
    by (simp add: logf_emitted names formatHeader_no_flags formatHeader_std newTestLogger_def NewLogger_def log_New_def)
qed

text \<open>
  The scenarios of the package's tests, at threshold \<open>FINE\<close>; the last message ends in a
  newline of its own.
\<close>

theorem emitted_bytes_witness:
  "ERROR \<le> GetGlobalMinLevel (SetGlobalMinLevel FINE fresh_world)
   \<and> writes (snd (Error Sprintf (fst (newTestLogger buffer ''App'' fresh_world)) ''Failed with error: %v'' [StringArg ''disk full'']
                 (SetGlobalMinLevel FINE fresh_world))) buffer
       = [''[ERROR][App] Failed with error: disk full\<newline>'']
   \<and> WARN \<le> GetGlobalMinLevel (SetGlobalMinLevel FINE fresh_world)
   \<and> writes (snd (Warn Sprintf (fst (newTestLogger buffer ''Worker'' fresh_world)) ''Job %d failed for user %s'' [IntArg 123, StringArg ''Alice'']
                 (SetGlobalMinLevel FINE fresh_world))) buffer
       = [''[WARN][Worker] Job 123 failed for user Alice\<newline>'']
   \<and> INFO \<le> GetGlobalMinLevel (SetGlobalMinLevel FINE fresh_world)
   \<and> writes (snd (Info Sprintf (fst (NewLogger ''Service'' None fresh_world)) ''Service started'' []
                 (SetGlobalMinLevel FINE fresh_world))) os_Stdout
       = [''2009/11/10 23:00:00 [INFO][Service] Service started\<newline>'']
   \<and> DEBUG \<le> GetGlobalMinLevel (SetGlobalMinLevel FINE fresh_world)
   \<and> writes (snd (Debug Sprintf (fst (newTestLogger buffer [] fresh_world)) ''Debug info for process: %s'' [StringArg ''xyz'']
                 (SetGlobalMinLevel FINE fresh_world))) buffer
       = [''[DEBUG] Debug info for process: xyz\<newline>'']
   \<and> FINE \<le> GetGlobalMinLevel (SetGlobalMinLevel FINE fresh_world)
   \<and> writes (snd (Fine Sprintf (fst (newTestLogger buffer ''DB'' fresh_world)) ''ready\<newline>'' []
                 (SetGlobalMinLevel FINE fresh_world))) buffer
       = [''[FINE][DB] ready\<newline>'']"
proof -
  have h1: "ERROR \<le> GetGlobalMinLevel (SetGlobalMinLevel FINE fresh_world)"
    and h2: "WARN \<le> GetGlobalMinLevel (SetGlobalMinLevel FINE fresh_world)"
    and h3: "INFO \<le> GetGlobalMinLevel (SetGlobalMinLevel FINE fresh_world)"
    and h4: "DEBUG \<le> GetGlobalMinLevel (SetGlobalMinLevel FINE fresh_world)"
    and h5: "FINE \<le> GetGlobalMinLevel (SetGlobalMinLevel FINE fresh_world)"
    by (simp_all add: GetGlobalMinLevel_Set level_defs)
  note s = emitted_bytes
  have w0: "writes (SetGlobalMinLevel FINE fresh_world) f = []" for f
    by (simp add: SetGlobalMinLevel_def writes_fresh)
  have st: "stamp (SetGlobalMinLevel FINE fresh_world) [] LstdFlags = ''2009/11/10 23:00:00 ''"
    by (simp add: SetGlobalMinLevel_def fresh_world_def process_start_def)
  have c1: "writes (snd (Error Sprintf (fst (newTestLogger buffer ''App'' fresh_world)) ''Failed with error: %v'' [StringArg ''disk full'']
                 (SetGlobalMinLevel FINE fresh_world))) buffer
       = [''[ERROR][App] Failed with error: disk full\<newline>'']"
    by (subst s [THEN conjunct1, rule_format, OF h1])
       (simp add: test_logger writes_Write w0 formatHeader_no_flags Sprintf_def newline_def)
  have c2: "writes (snd (Warn Sprintf (fst (newTestLogger buffer ''Worker'' fresh_world)) ''Job %d failed for user %s'' [IntArg 123, StringArg ''Alice'']
                 (SetGlobalMinLevel FINE fresh_world))) buffer
       = [''[WARN][Worker] Job 123 failed for user Alice\<newline>'']"
    by (subst s [THEN conjunct2, THEN conjunct1, rule_format, OF h2])
       (simp add: test_logger writes_Write w0 formatHeader_no_flags Sprintf_def newline_def
          fmt_d_def decimal.simps digit_def)
  have c3: "writes (snd (Info Sprintf (fst (NewLogger ''Service'' None fresh_world)) ''Service started'' []
                 (SetGlobalMinLevel FINE fresh_world))) os_Stdout
       = [''2009/11/10 23:00:00 [INFO][Service] Service started\<newline>'']"
    by (subst s [THEN conjunct2, THEN conjunct2, THEN conjunct1, rule_format, OF h3])
       (simp add: NewLogger_def log_New_def writes_Write w0 formatHeader_std st Sprintf_def newline_def)
  have c4: "writes (snd (Debug Sprintf (fst (newTestLogger buffer [] fresh_world)) ''Debug info for process: %s'' [StringArg ''xyz'']
                 (SetGlobalMinLevel FINE fresh_world))) buffer
       = [''[DEBUG] Debug info for process: xyz\<newline>'']"
    by (subst s [THEN conjunct2, THEN conjunct2, THEN conjunct2, THEN conjunct1, rule_format, OF h4])
       (simp add: test_logger writes_Write w0 formatHeader_no_flags Sprintf_def newline_def)
  have c5: "writes (snd (Fine Sprintf (fst (newTestLogger buffer ''DB'' fresh_world)) ''ready\<newline>'' []
                 (SetGlobalMinLevel FINE fresh_world))) buffer
       = [''[FINE][DB] ready\<newline>'']"
    by (subst s [THEN conjunct2, THEN conjunct2, THEN conjunct2, THEN conjunct2, THEN conjunct1, rule_format, OF h5])
       (simp add: test_logger writes_Write w0 formatHeader_no_flags Sprintf_def newline_def)
  show ?thesis
    by (intro conjI h1 c1 h2 c2 h3 c3 h4 c4 h5 c5)
qed

text \<open>
  Claim C2 as stated fails for a message that ends in a newline: \<^verbatim>\<open>Info("done\n")\<close> writes
  \<^verbatim>\<open>[INFO] done\n\<close>, which is not the prefix, a space, the message and one more newline; and
  \<^verbatim>\<open>Info("done\n\n")\<close> writes a line that ends in two newlines.
\<close>

theorem trailing_newline_counterexample:
  "writes (snd (Info Sprintf (fst (newTestLogger buffer [] fresh_world)) ''done\<newline>'' [] fresh_world)) buffer
     = [''[INFO] done\<newline>'']
   \<and> ''[INFO] done\<newline>'' \<noteq> ''[INFO]'' @ '' '' @ Sprintf ''done\<newline>'' [] @ [newline]
   \<and> writes (snd (Info Sprintf (fst (newTestLogger buffer [] fresh_world)) ''done\<newline>\<newline>'' [] fresh_world)) buffer
     = [''[INFO] done\<newline>\<newline>'']"
proof -
  have le: "INFO \<le> GetGlobalMinLevel fresh_world" by (simp add: fresh_level)
  have "writes (snd (Info Sprintf (fst (newTestLogger buffer [] fresh_world)) ''done\<newline>'' [] fresh_world)) buffer
     = [''[INFO] done\<newline>'']"
    unfolding Info_def
    by (subst logf_emitted [OF le])
       (simp add: test_logger writes_Write writes_fresh formatHeader_no_flags
          LogLevel_String_def level_defs Sprintf_def newline_def)
  moreover have "''[INFO] done\<newline>'' \<noteq> ''[INFO]'' @ '' '' @ Sprintf ''done\<newline>'' [] @ [newline]"
    by (simp add: Sprintf_def)
  moreover have "writes (snd (Info Sprintf (fst (newTestLogger buffer [] fresh_world)) ''done\<newline>\<newline>'' [] fresh_world)) buffer
     = [''[INFO] done\<newline>\<newline>'']"
    unfolding Info_def
    by (subst logf_emitted [OF le])
       (simp add: test_logger writes_Write writes_fresh formatHeader_no_flags
          LogLevel_String_def level_defs Sprintf_def newline_def)
  ultimately show ?thesis by (intro conjI)
qed

text \<open>
  Claim C3. \<open>GetGlobalMinLevel\<close> after \<open>SetGlobalMinLevel X\<close> returns \<open>X\<close>, for the five levels
  as for any other value, also when a logging call is made in between.
\<close>

theorem set_then_get:
  "GetGlobalMinLevel (SetGlobalMinLevel X w) = X
   \<and> GetGlobalMinLevel (snd (logf sprintf l level msg params (SetGlobalMinLevel X w))) = X"
  by (simp add: logf_keeps_level) (simp add: GetGlobalMinLevel_def SetGlobalMinLevel_def)

text \<open>
  Claim C4. \<open>String\<close> is a function of the level alone. It returns the five names for the
  five levels; for any other value \<open>V\<close> it returns \<^verbatim>\<open>UNKNOWN_LOG_LEVEL(\<close>, the decimal numeral of
  \<open>V\<close> and \<^verbatim>\<open>)\<close>, and that numeral reads back as \<open>V\<close>.
\<close>

theorem LogLevel_String_names:
  "LogLevel_String ERROR = ''ERROR'' \<and> LogLevel_String WARN = ''WARN'' \<and> LogLevel_String INFO = ''INFO''
   \<and> LogLevel_String DEBUG = ''DEBUG'' \<and> LogLevel_String FINE = ''FINE''
   \<and> (V \<notin> {ERROR, WARN, INFO, DEBUG, FINE} \<longrightarrow>
        LogLevel_String V = ''UNKNOWN_LOG_LEVEL('' @ fmt_d V @ '')'' \<and> numeral_value (fmt_d V) = V)"
  by (simp add: LogLevel_String_def level_defs Sprintf_unknown numeral_value_fmt_d)

theorem LogLevel_String_names_witness:
  "(99::int) \<notin> {ERROR, WARN, INFO, DEBUG, FINE} \<and> LogLevel_String 99 = ''UNKNOWN_LOG_LEVEL(99)''
   \<and> (- 5::int) \<notin> {ERROR, WARN, INFO, DEBUG, FINE} \<and> LogLevel_String (- 5) = ''UNKNOWN_LOG_LEVEL(-5)''"
  using LogLevel_String_names [of 99] LogLevel_String_names [of "- 5"]
  by (simp add: level_defs fmt_d_def decimal.simps digit_def)

text \<open>
  Claim C6. A call whose rank is above the threshold returns the Logger and the world it
  was given: nothing is written, the threshold, the component and the sink are the same.
\<close>

theorem suppressed_call_is_noop:
  "(GetGlobalMinLevel w < ERROR \<longrightarrow> Error sprintf l msg params w = (l, w))
   \<and> (GetGlobalMinLevel w < WARN \<longrightarrow> Warn sprintf l msg params w = (l, w))
   \<and> (GetGlobalMinLevel w < INFO \<longrightarrow> Info sprintf l msg params w = (l, w))
   \<and> (GetGlobalMinLevel w < DEBUG \<longrightarrow> Debug sprintf l msg params w = (l, w))
   \<and> (GetGlobalMinLevel w < FINE \<longrightarrow> Fine sprintf l msg params w = (l, w))"
  by (simp add: method_defs logf_suppressed)

theorem suppressed_call_is_noop_witness:
  "GetGlobalMinLevel (SetGlobalMinLevel (- 1) fresh_world) < ERROR
   \<and> Error Sprintf (fst (newTestLogger buffer ''DB'' fresh_world)) ''boom'' [] (SetGlobalMinLevel (- 1) fresh_world)
       = (fst (newTestLogger buffer ''DB'' fresh_world), SetGlobalMinLevel (- 1) fresh_world)
   \<and> GetGlobalMinLevel (SetGlobalMinLevel ERROR fresh_world) < WARN
   \<and> Warn Sprintf (fst (newTestLogger buffer ''DB'' fresh_world)) ''careful'' [] (SetGlobalMinLevel ERROR fresh_world)
       = (fst (newTestLogger buffer ''DB'' fresh_world), SetGlobalMinLevel ERROR fresh_world)
   \<and> GetGlobalMinLevel (SetGlobalMinLevel WARN fresh_world) < INFO
   \<and> Info Sprintf (fst (newTestLogger buffer ''DB'' fresh_world)) ''skip'' [] (SetGlobalMinLevel WARN fresh_world)
       = (fst (newTestLogger buffer ''DB'' fresh_world), SetGlobalMinLevel WARN fresh_world)
   \<and> GetGlobalMinLevel fresh_world < DEBUG
   \<and> Debug Sprintf (fst (newTestLogger buffer ''DB'' fresh_world)) ''state %d'' [IntArg 3] fresh_world
       = (fst (newTestLogger buffer ''DB'' fresh_world), fresh_world)
   \<and> GetGlobalMinLevel fresh_world < FINE
   \<and> Fine Sprintf (fst (newTestLogger buffer ''DB'' fresh_world)) ''detail'' [] fresh_world
       = (fst (newTestLogger buffer ''DB'' fresh_world), fresh_world)"
proof -
  have t: "GetGlobalMinLevel fresh_world = INFO"
    by (simp add: fresh_world_def GetGlobalMinLevel_start)
  have h1: "GetGlobalMinLevel (SetGlobalMinLevel (- 1) fresh_world) < ERROR"
    and h2: "GetGlobalMinLevel (SetGlobalMinLevel ERROR fresh_world) < WARN"
    and h3: "GetGlobalMinLevel (SetGlobalMinLevel WARN fresh_world) < INFO"
    and h4: "GetGlobalMinLevel fresh_world < DEBUG"
    and h5: "GetGlobalMinLevel fresh_world < FINE"
    by (simp_all add: GetGlobalMinLevel_Set t level_defs)
  note s = suppressed_call_is_noop
  have c1: "Error Sprintf (fst (newTestLogger buffer ''DB'' fresh_world)) ''boom'' [] (SetGlobalMinLevel (- 1) fresh_world)
       = (fst (newTestLogger buffer ''DB'' fresh_world), SetGlobalMinLevel (- 1) fresh_world)"
    by (rule s [THEN conjunct1, rule_format, OF h1])
  have c2: "Warn Sprintf (fst (newTestLogger buffer ''DB'' fresh_world)) ''careful'' [] (SetGlobalMinLevel ERROR fresh_world)
       = (fst (newTestLogger buffer ''DB'' fresh_world), SetGlobalMinLevel ERROR fresh_world)"
    by (rule s [THEN conjunct2, THEN conjunct1, rule_format, OF h2])
  have c3: "Info Sprintf (fst (newTestLogger buffer ''DB'' fresh_world)) ''skip'' [] (SetGlobalMinLevel WARN fresh_world)
       = (fst (newTestLogger buffer ''DB'' fresh_world), SetGlobalMinLevel WARN fresh_world)"
    by (rule s [THEN conjunct2, THEN conjunct2, THEN conjunct1, rule_format, OF h3])
  have c4: "Debug Sprintf (fst (newTestLogger buffer ''DB'' fresh_world)) ''state %d'' [IntArg 3] fresh_world
       = (fst (newTestLogger buffer ''DB'' fresh_world), fresh_world)"
    by (rule s [THEN conjunct2, THEN conjunct2, THEN conjunct2, THEN conjunct1, rule_format, OF h4])
  have c5: "Fine Sprintf (fst (newTestLogger buffer ''DB'' fresh_world)) ''detail'' [] fresh_world
       = (fst (newTestLogger buffer ''DB'' fresh_world), fresh_world)"
    by (rule s [THEN conjunct2, THEN conjunct2, THEN conjunct2, THEN conjunct2, rule_format, OF h5])
  show ?thesis
    by (intro conjI h1 c1 h2 c2 h3 c3 h4 c4 h5 c5)
qed

text \<open>
  Claim C7. \<open>NewLogger\<close> returns for every component and every sink: the Logger holds the
  given component and the given sink, standard output for \<^verbatim>\<open>nil\<close>, with an empty prefix and
  the standard flags; the world is unchanged; and no method changes the Logger.
\<close>

theorem NewLogger_stores_fields:
  "component (fst (NewLogger c output w)) = c
   \<and> log_out (internalLogger (fst (NewLogger c (Some f) w))) = f
   \<and> log_out (internalLogger (fst (NewLogger c None w))) = os_Stdout
   \<and> log_prefix (internalLogger (fst (NewLogger c output w))) = []
   \<and> log_flag (internalLogger (fst (NewLogger c output w))) = LstdFlags
   \<and> snd (NewLogger c output w) = w
   \<and> fst (Error sprintf (fst (NewLogger c output w)) msg params w') = fst (NewLogger c output w)
   \<and> fst (Warn sprintf (fst (NewLogger c output w)) msg params w') = fst (NewLogger c output w)
   \<and> fst (Info sprintf (fst (NewLogger c output w)) msg params w') = fst (NewLogger c output w)
   \<and> fst (Debug sprintf (fst (NewLogger c output w)) msg params w') = fst (NewLogger c output w)
   \<and> fst (Fine sprintf (fst (NewLogger c output w)) msg params w') = fst (NewLogger c output w)"
  by (simp add: method_defs logf_fst) (simp add: NewLogger_def log_New_def)

text \<open>
  Claim C8. A logging call has no error result. The error the sink's \<open>Write\<close> returns
  reaches \<open>log_Output\<close> and goes no further: the call does the same whatever that error
  is. The template and the operands are not checked: the call depends on them only
  through the text the formatter returns for them.
\<close>

theorem logging_call_does_not_fail:
  "fst (log_Output lg s w) = write_err w (log_out lg)
   \<and> Error sprintf l msg params (w\<lparr>write_err := e\<rparr>) = (l, (snd (Error sprintf l msg params w))\<lparr>write_err := e\<rparr>)
   \<and> Warn sprintf l msg params (w\<lparr>write_err := e\<rparr>) = (l, (snd (Warn sprintf l msg params w))\<lparr>write_err := e\<rparr>)
   \<and> Info sprintf l msg params (w\<lparr>write_err := e\<rparr>) = (l, (snd (Info sprintf l msg params w))\<lparr>write_err := e\<rparr>)
   \<and> Debug sprintf l msg params (w\<lparr>write_err := e\<rparr>) = (l, (snd (Debug sprintf l msg params w))\<lparr>write_err := e\<rparr>)
   \<and> Fine sprintf l msg params (w\<lparr>write_err := e\<rparr>) = (l, (snd (Fine sprintf l msg params w))\<lparr>write_err := e\<rparr>)
   \<and> (sprintf msg params = sprintf' msg' params' \<longrightarrow>
        Error sprintf l msg params w = Error sprintf' l msg' params' w
      \<and> Warn sprintf l msg params w = Warn sprintf' l msg' params' w
      \<and> Info sprintf l msg params w = Info sprintf' l msg' params' w
      \<and> Debug sprintf l msg params w = Debug sprintf' l msg' params' w
      \<and> Fine sprintf l msg params w = Fine sprintf' l msg' params' w)"
  unfolding method_defs
  by (intro conjI impI log_Output_error logf_write_err) (erule logf_formatter)+

text \<open>
  A verb without operand, on a sink that refuses every write: the marker of \<open>fmt\<close> is
  written as the message.
\<close>

theorem logging_call_does_not_fail_witness:
  "Sprintf ''%d items'' [] = (\<lambda>t a. t) ''%!d(MISSING) items'' ([] :: arg list)
   \<and> Info Sprintf (fst (newTestLogger buffer [] broken_world)) ''%d items'' [] broken_world
       = Info (\<lambda>t a. t) (fst (newTestLogger buffer [] broken_world)) ''%!d(MISSING) items'' ([] :: arg list) broken_world
   \<and> writes (snd (Info Sprintf (fst (newTestLogger buffer [] broken_world)) ''%d items'' [] broken_world)) buffer
       = [''[INFO] %!d(MISSING) items\<newline>'']
   \<and> fst (log_Output (internalLogger (fst (newTestLogger buffer [] broken_world))) ''[INFO] %!d(MISSING) items'' broken_world)
       = Some (Err ''file already closed'')"
proof -
  note s = logging_call_does_not_fail
  have h: "Sprintf ''%d items'' [] = (\<lambda>t a. t) ''%!d(MISSING) items'' ([] :: arg list)"
    by (simp add: Sprintf_def)
  have c1: "Info Sprintf (fst (newTestLogger buffer [] broken_world)) ''%d items'' [] broken_world
       = Info (\<lambda>t a. t) (fst (newTestLogger buffer [] broken_world)) ''%!d(MISSING) items'' ([] :: arg list) broken_world"
    by (rule s [where sprintf = Sprintf and msg = "''%d items''" and params = "[]"
            and sprintf' = "\<lambda>t a. t" and msg' = "''%!d(MISSING) items''" and params' = "[] :: arg list",
          THEN conjunct2, THEN conjunct2, THEN conjunct2, THEN conjunct2, THEN conjunct2, THEN conjunct2,
          rule_format, OF h, THEN conjunct2, THEN conjunct2, THEN conjunct1])
  have le: "INFO \<le> GetGlobalMinLevel broken_world"
    by (simp add: broken_world_def GetGlobalMinLevel_start)
  have c2: "writes (snd (Info Sprintf (fst (newTestLogger buffer [] broken_world)) ''%d items'' [] broken_world)) buffer
       = [''[INFO] %!d(MISSING) items\<newline>'']"
    unfolding c1 unfolding Info_def
    by (subst logf_emitted [OF le])
       (simp add: test_logger writes_Write formatHeader_no_flags LogLevel_String_def level_defs newline_def
          broken_world_def process_start_def)
  have c3: "fst (log_Output (internalLogger (fst (newTestLogger buffer [] broken_world))) ''[INFO] %!d(MISSING) items'' broken_world)
       = Some (Err ''file already closed'')"
    by (subst s [THEN conjunct1]) (simp add: broken_world_def process_start_def)
  show ?thesis
    by (intro conjI h c1 c2 c3)
qed

text \<open>
  Claim C9. When the process starts the threshold is \<open>INFO\<close>: \<open>Error\<close>, \<open>Warn\<close> and \<open>Info\<close>
  write a line, \<open>Debug\<close> and \<open>Fine\<close> do nothing.
\<close>

theorem default_threshold_is_INFO:
  "GetGlobalMinLevel (process_start errs st) = INFO
   \<and> (\<exists>line. snd (Error sprintf l msg params (process_start errs st)) = snd (Write (log_out (internalLogger l)) line (process_start errs st)))
   \<and> (\<exists>line. snd (Warn sprintf l msg params (process_start errs st)) = snd (Write (log_out (internalLogger l)) line (process_start errs st)))
   \<and> (\<exists>line. snd (Info sprintf l msg params (process_start errs st)) = snd (Write (log_out (internalLogger l)) line (process_start errs st)))
   \<and> Debug sprintf l msg params (process_start errs st) = (l, process_start errs st)
   \<and> Fine sprintf l msg params (process_start errs st) = (l, process_start errs st)"
  unfolding method_defs
  by (simp only: logf_written_iff logf_unchanged_iff GetGlobalMinLevel_start) (simp add: level_defs)

text \<open>
  Claim C10. \<open>SetGlobalMinLevel\<close> stores any integer. Below 0, every one of the five
  methods is suppressed; from 4 on, every one writes a line.
\<close>

theorem threshold_is_not_validated:
  "GetGlobalMinLevel (SetGlobalMinLevel v w) = v
   \<and> (v < 0 \<longrightarrow>
        Error sprintf l msg params (SetGlobalMinLevel v w) = (l, SetGlobalMinLevel v w)
      \<and> Warn sprintf l msg params (SetGlobalMinLevel v w) = (l, SetGlobalMinLevel v w)
      \<and> Info sprintf l msg params (SetGlobalMinLevel v w) = (l, SetGlobalMinLevel v w)
      \<and> Debug sprintf l msg params (SetGlobalMinLevel v w) = (l, SetGlobalMinLevel v w)
      \<and> Fine sprintf l msg params (SetGlobalMinLevel v w) = (l, SetGlobalMinLevel v w))
   \<and> (4 \<le> v \<longrightarrow>
        (\<exists>line. snd (Error sprintf l msg params (SetGlobalMinLevel v w)) = snd (Write (log_out (internalLogger l)) line (SetGlobalMinLevel v w)))
      \<and> (\<exists>line. snd (Warn sprintf l msg params (SetGlobalMinLevel v w)) = snd (Write (log_out (internalLogger l)) line (SetGlobalMinLevel v w)))
      \<and> (\<exists>line. snd (Info sprintf l msg params (SetGlobalMinLevel v w)) = snd (Write (log_out (internalLogger l)) line (SetGlobalMinLevel v w)))
      \<and> (\<exists>line. snd (Debug sprintf l msg params (SetGlobalMinLevel v w)) = snd (Write (log_out (internalLogger l)) line (SetGlobalMinLevel v w)))
      \<and> (\<exists>line. snd (Fine sprintf l msg params (SetGlobalMinLevel v w)) = snd (Write (log_out (internalLogger l)) line (SetGlobalMinLevel v w))))"
  unfolding method_defs
  by (simp only: logf_written_iff logf_unchanged_iff GetGlobalMinLevel_Set) (simp add: level_defs)

theorem threshold_is_not_validated_witness:
  "GetGlobalMinLevel (SetGlobalMinLevel (- 7) fresh_world) = - 7
   \<and> (- 7 :: int) < 0
   \<and> Error Sprintf (fst (newTestLogger buffer ''DB'' fresh_world)) ''boom'' [] (SetGlobalMinLevel (- 7) fresh_world)
       = (fst (newTestLogger buffer ''DB'' fresh_world), SetGlobalMinLevel (- 7) fresh_world)
   \<and> (4 :: int) \<le> 99
   \<and> (\<exists>line. snd (Fine Sprintf (fst (newTestLogger buffer ''DB'' fresh_world)) ''detail'' [] (SetGlobalMinLevel 99 fresh_world))
         = snd (Write buffer line (SetGlobalMinLevel 99 fresh_world)))"
proof -
  note s = threshold_is_not_validated
  have h1: "(- 7 :: int) < 0" and h2: "(4 :: int) \<le> 99" by simp_all
  have c0: "GetGlobalMinLevel (SetGlobalMinLevel (- 7) fresh_world) = - 7"
    by (rule s [THEN conjunct1])
  have c1: "Error Sprintf (fst (newTestLogger buffer ''DB'' fresh_world)) ''boom'' [] (SetGlobalMinLevel (- 7) fresh_world)
       = (fst (newTestLogger buffer ''DB'' fresh_world), SetGlobalMinLevel (- 7) fresh_world)"
    by (rule s [THEN conjunct2, THEN conjunct1, rule_format, OF h1, THEN conjunct1])
  have o: "log_out (internalLogger (fst (newTestLogger buffer ''DB'' fresh_world))) = buffer"
    by (simp add: test_logger)
  have c2: "\<exists>line. snd (Fine Sprintf (fst (newTestLogger buffer ''DB'' fresh_world)) ''detail'' [] (SetGlobalMinLevel 99 fresh_world))
         = snd (Write buffer line (SetGlobalMinLevel 99 fresh_world))"
    using s [THEN conjunct2, THEN conjunct2, rule_format, OF h2, THEN conjunct2, THEN conjunct2, THEN conjunct2, THEN conjunct2,
        of Sprintf "fst (newTestLogger buffer ''DB'' fresh_world)" "''detail''" "[]" fresh_world]
    unfolding o .
  show ?thesis
    by (intro conjI c0 h1 c1 h2 c2)
qed

end
